theory Spec2Isabelle
  imports
    Main
    "HOL-Library.Char_ord"
    "HOL-Library.List_Lexorder"
    "HOL-Library.AList"
    "HOL-Library.Multiset"
    "HOL-Library.Sublist"
begin

section \<open>The environment of reconx.py\<close>

text \<open>
  The script talks to three things outside itself: the file system, the host shell that
  runs the external tools, and the console. The file system is a value: the directories
  that exist and the regular files with their text. Paths are the strings the script
  builds (\<open>output/sub1.txt\<close>), relative to the working directory, which always exists.
  The field \<open>clock\<close> is what \<open>time.time()\<close> reads, in hundredths of a second.
\<close>

type_synonym path = string

record sys =
  dirs :: "path list"
  files :: "(path \<times> string) list"
  clock :: int

datatype error =
    FileNotFoundError path
  | IsADirectoryError path
  | NotADirectoryError path
  | FileExistsError path
  | ValueError
  | YAMLError

text \<open>
  What the script prints and which processes it starts is recorded in a trace, so that
  the order of these events can be stated. \<open>Banner\<close> is a stage banner (its text
  without the colour codes and the leading newline), \<open>Installing\<close> and \<open>Found\<close>
  are the two messages of the dependency check, with the name they mention.
  \<open>Called c rc\<close> is a shell command that has run to completion with exit status
  \<open>rc\<close>; \<open>Wrote p\<close> is a file written by the script itself.
\<close>

datatype event =
    Banner string
  | Installing string
  | Found string
  | Called string int
  | Wrote path

record world =
  disk :: sys
  trace :: "event list"

text \<open>The result of one shell command: exit status, both streams, and the system it leaves.\<close>

record proc =
  returncode :: int
  stdout :: string
  stderr :: string
  after :: sys

record dependency =
  dep_name :: string
  dep_check :: string
  dep_install :: string

record tool =
  tool_name :: string
  tool_check :: "string option"
  tool_install :: string

record config =
  system_dependencies :: "dependency list option"
  tools :: "tool list"

record task =
  task_name :: string
  task_cmd :: string
  task_outfile :: "path option"

text \<open>
  Everything the script cannot decide is a parameter: what a shell command does
  (\<open>shell\<close>), which of the running tasks of a pool finishes next (\<open>pick\<close>), how much of a
  file that is still open for writing has reached the disk (\<open>flushed\<close>), what the YAML
  parser returns (\<open>yaml\<close>), and the expansion of \<open>~/go/bin\<close> (\<open>go_bin\<close>).
\<close>

record env =
  shell :: "string \<Rightarrow> sys \<Rightarrow> proc"
  pick :: "task list \<Rightarrow> sys \<Rightarrow> nat"
  flushed :: "string \<Rightarrow> nat"
  yaml :: "string \<Rightarrow> error + config"
  go_bin :: string

subsection \<open>Statements that may raise\<close>

type_synonym 'a io = "world \<Rightarrow> (error + 'a) \<times> world"

definition ret :: "'a \<Rightarrow> 'a io" where
  "ret a w = (Inr a, w)"

definition raise :: "error \<Rightarrow> 'a io" where
  "raise e w = (Inl e, w)"

text \<open>Sequencing: an exception of the first statement skips the rest.\<close>

definition andThen :: "'a io \<Rightarrow> ('a \<Rightarrow> 'b io) \<Rightarrow> 'b io" where
  "andThen m k w = (case m w of (Inl e, w') \<Rightarrow> (Inl e, w') | (Inr a, w') \<Rightarrow> k a w')"

definition emit :: "event \<Rightarrow> unit io" where
  "emit e w = (Inr (), w\<lparr>trace := trace w @ [e]\<rparr>)"

subsection \<open>File system calls\<close>

definition dirname :: "path \<Rightarrow> path" where
  "dirname p = (if CHR ''/'' \<in> set p
                then rev (tl (dropWhile (\<lambda>c. c \<noteq> CHR ''/'') (rev p))) else [])"

definition isdir :: "sys \<Rightarrow> path \<Rightarrow> bool" where
  "isdir s p = (p \<in> set (dirs s))"

definition isfile :: "sys \<Rightarrow> path \<Rightarrow> bool" where
  "isfile s p = (\<not> isdir s p \<and> map_of (files s) p \<noteq> None)"

definition exists_path :: "sys \<Rightarrow> path \<Rightarrow> bool" where
  "exists_path s p = (isdir s p \<or> isfile s p)"

text \<open>\<open>open(p, "w")\<close> followed by writing \<open>text\<close> and closing the file.\<close>

definition write_text :: "sys \<Rightarrow> path \<Rightarrow> string \<Rightarrow> error + sys" where
  "write_text s p text =
     (if isdir s p then Inl (IsADirectoryError p)
      else if dirname p \<noteq> [] \<and> \<not> isdir s (dirname p) then Inl (FileNotFoundError p)
      else Inr (s\<lparr>files := AList.update p text (files s)\<rparr>))"

text \<open>\<open>open(p).read()\<close>.\<close>

definition read_text :: "sys \<Rightarrow> path \<Rightarrow> error + string" where
  "read_text s p =
     (if isdir s p then Inl (IsADirectoryError p)
      else case map_of (files s) p of
             None \<Rightarrow> Inl (FileNotFoundError p)
           | Some text \<Rightarrow> Inr text)"

definition entry_of :: "path \<Rightarrow> path \<Rightarrow> string option" where
  "entry_of d p =
     (let n = drop (length d + 1) p
      in if take (length d + 1) p = d @ ''/'' \<and> n \<noteq> [] \<and> CHR ''/'' \<notin> set n
         then Some n else None)"

text \<open>\<open>os.listdir(d)\<close>: the names in \<open>d\<close>, each once, in no particular order.\<close>

definition listdir :: "sys \<Rightarrow> path \<Rightarrow> error + string list" where
  "listdir s d =
     (if isdir s d
      then Inr (remdups (List.map_filter (entry_of d) (map fst (files s) @ dirs s)))
      else if isfile s d then Inl (NotADirectoryError d)
      else Inl (FileNotFoundError d))"

text \<open>\<open>os.makedirs(d, exist_ok=True)\<close> for a single path component.\<close>

definition makedirs :: "path \<Rightarrow> unit io" where
  "makedirs d w =
     (if isdir (disk w) d then (Inr (), w)
      else if isfile (disk w) d then (Inl (FileExistsError d), w)
      else (Inr (), w\<lparr>disk := (disk w)\<lparr>dirs := d # dirs (disk w)\<rparr>\<rparr>))"

text \<open>The \<open>with open(p, "w") as f: f.write(text)\<close> of \<open>run\<close> and \<open>report\<close>.\<close>

definition write_file :: "path \<Rightarrow> string \<Rightarrow> unit io" where
  "write_file p text w =
     (case write_text (disk w) p text of
        Inl e \<Rightarrow> (Inl e, w)
      | Inr s \<Rightarrow> (Inr (), w\<lparr>disk := s, trace := trace w @ [Wrote p]\<rparr>))"

section \<open>Core command runner\<close>

text \<open>
  \<open>subprocess.run(cmd, shell=True, stdout=PIPE, stderr=DEVNULL, text=True)\<close>: the
  command runs to completion; no \<open>check=True\<close> is passed, so the exit status is only
  recorded in the result.
\<close>

definition subprocess_run :: "env \<Rightarrow> string \<Rightarrow> proc io" where
  "subprocess_run E c w =
     (let r = shell E c (disk w)
      in (Inr r, w\<lparr>disk := after r, trace := trace w @ [Called c (returncode r)]\<rparr>))"

text \<open>Python's truth value of \<open>outfile\<close>: \<open>None\<close> and the empty string are false.\<close>

definition truthy :: "path option \<Rightarrow> bool" where
  "truthy outfile = (case outfile of None \<Rightarrow> False | Some p \<Rightarrow> p \<noteq> [])"

definition run :: "env \<Rightarrow> string \<Rightarrow> path option \<Rightarrow> string io" where
  "run E c outfile =
     andThen (subprocess_run E c) (\<lambda>result.
       if truthy outfile
       then andThen (write_file (the outfile) (stdout result)) (\<lambda>_. ret (stdout result))
       else ret (stdout result))"

section \<open>Parallel execution engine\<close>

text \<open>The function \<open>task\<close> of the script, applied to a task tuple.\<close>

definition task_run :: "env \<Rightarrow> task \<Rightarrow> (string \<times> int) io" where
  "task_run E t w =
     (let start = clock (disk w)
      in andThen (run E (task_cmd t) (task_outfile t))
           (\<lambda>_ w'. (Inr (task_name t, clock (disk w') - start), w')) w)"

text \<open>
  A pool of \<open>k\<close> workers takes the submitted tasks in submission order, so the tasks
  that are running are the first \<open>k\<close> of those not yet finished; \<open>pick\<close> says which of
  them finishes next. Each task takes effect as a whole when it finishes. The pool
  exists for \<open>k \<ge> 1\<close> only; \<open>max 1\<close> keeps the index in range for every \<open>k\<close>.
  The duration of a task is the difference of two clock readings; Python rounds it to
  two decimals, which the unit of the clock stands for.
\<close>

definition next_done :: "env \<Rightarrow> nat \<Rightarrow> task list \<Rightarrow> sys \<Rightarrow> nat" where
  "next_done E k pending s = pick E pending s mod max 1 (min k (length pending))"

definition without :: "nat \<Rightarrow> 'a list \<Rightarrow> 'a list" where
  "without i xs = take i xs @ drop (Suc i) xs"

text \<open>
  Leaving the \<open>with ThreadPoolExecutor\<close> block waits for every submitted task, also
  after an exception has been raised at \<open>future.result()\<close>: the remaining tasks still
  run, and what they return or raise is dropped.
\<close>

function shutdown :: "env \<Rightarrow> nat \<Rightarrow> task list \<Rightarrow> world \<Rightarrow> world" where
  "shutdown E k pending w =
     (if pending = [] then w
      else let i = next_done E k pending (disk w)
           in shutdown E k (without i pending) (snd (task_run E (pending ! i) w)))"
  by pat_completeness auto
termination
proof (relation "measure (\<lambda>(E, k, pending, w). length pending)")
  fix E :: env and k :: nat and pending :: "task list" and w :: world and i :: nat
  assume ne: "pending \<noteq> []" and i: "i = next_done E k pending (disk w)"
  have "i < max 1 (min k (length pending))"
    unfolding i next_done_def by (rule mod_less_divisor) simp
  moreover have "max 1 (min k (length pending)) \<le> length pending"
    using ne by (cases pending) auto
  ultimately have "length (without i pending) < length pending"
    by (simp add: without_def)
  then show "((E, k, without i pending, snd (task_run E (pending ! i) w)), (E, k, pending, w))
             \<in> measure (\<lambda>(E, k, pending, w). length pending)"
    by simp
qed simp

text \<open>
  The loop over \<open>as_completed(futures)\<close>: \<open>future.result()\<close> returns the task's pair or
  re-raises what the task raised.
\<close>

function collect ::
  "env \<Rightarrow> nat \<Rightarrow> task list \<Rightarrow> (string \<times> int) list \<Rightarrow> (string \<times> int) list io" where
  "collect E k pending results w =
     (if pending = [] then (Inr results, w)
      else let i = next_done E k pending (disk w)
           in case task_run E (pending ! i) w of
                (Inr r, w') \<Rightarrow> collect E k (without i pending) (results @ [r]) w'
              | (Inl e, w') \<Rightarrow> (Inl e, shutdown E k (without i pending) w'))"
  by pat_completeness auto
termination
proof (relation "measure (\<lambda>(E, k, pending, results, w). length pending)")
  fix E :: env and k :: nat and pending :: "task list" and w w' :: world and i :: nat
    and results :: "(string \<times> int) list" and r :: "string \<times> int"
  assume ne: "pending \<noteq> []" and i: "i = next_done E k pending (disk w)"
  have "i < max 1 (min k (length pending))"
    unfolding i next_done_def by (rule mod_less_divisor) simp
  moreover have "max 1 (min k (length pending)) \<le> length pending"
    using ne by (cases pending) auto
  ultimately have "length (without i pending) < length pending"
    by (simp add: without_def)
  then show "((E, k, without i pending, results @ [r], w'), (E, k, pending, results, w))
             \<in> measure (\<lambda>(E, k, pending, results, w). length pending)"
    by simp
qed simp

text \<open>\<open>ThreadPoolExecutor(max_workers=workers)\<close> raises ValueError unless \<open>workers > 0\<close>.\<close>

definition run_parallel :: "env \<Rightarrow> task list \<Rightarrow> int \<Rightarrow> (string \<times> int) list io" where
  "run_parallel E tasks workers =
     (if workers \<le> 0 then raise ValueError
      else collect E (nat workers) tasks [])"

section \<open>Tool and dependency checks\<close>

text \<open>\<open>subprocess.call(c, shell=True)\<close> returns the exit status and raises on none.\<close>

definition subprocess_call :: "env \<Rightarrow> string \<Rightarrow> int io" where
  "subprocess_call E c = andThen (subprocess_run E c) (\<lambda>r. ret (returncode r))"

fun ensure_deps :: "env \<Rightarrow> dependency list \<Rightarrow> unit io" where
  "ensure_deps E [] = ret ()"
| "ensure_deps E (dep # deps) =
     andThen (subprocess_call E (dep_check dep)) (\<lambda>rc.
     andThen (if rc \<noteq> 0
              then andThen (emit (Installing (dep_name dep))) (\<lambda>_.
                   andThen (subprocess_call E (dep_install dep)) (\<lambda>_. ret ()))
              else emit (Found (dep_name dep))) (\<lambda>_.
     ensure_deps E deps))"

definition check_cmd :: "env \<Rightarrow> tool \<Rightarrow> string" where
  "check_cmd E t =
     (case tool_check t of
        Some c \<Rightarrow> c
      | None \<Rightarrow> ''command -v '' @ tool_name t @ '' || test -x '' @ go_bin E @ ''/'' @ tool_name t)"

fun ensure_tools :: "env \<Rightarrow> tool list \<Rightarrow> unit io" where
  "ensure_tools E [] = ret ()"
| "ensure_tools E (t # ts) =
     andThen (subprocess_call E (check_cmd E t @ '' >/dev/null 2>&1'')) (\<lambda>rc.
     andThen (if rc \<noteq> 0
              then andThen (emit (Installing (tool_name t))) (\<lambda>_.
                   andThen (subprocess_call E (tool_install t)) (\<lambda>_. ret ()))
              else emit (Found (tool_name t))) (\<lambda>_.
     ensure_tools E ts))"

definition read_file :: "path \<Rightarrow> string io" where
  "read_file p w = (read_text (disk w) p, w)"

definition check_tools :: "env \<Rightarrow> unit io" where
  "check_tools E =
     andThen (read_file ''tools.yaml'') (\<lambda>src.
     andThen (\<lambda>w. (yaml E src, w)) (\<lambda>data.
     andThen (ensure_deps E (case system_dependencies data of None \<Rightarrow> [] | Some deps \<Rightarrow> deps))
       (\<lambda>_.
     ensure_tools E (tools data))))"

section \<open>Recon pipeline\<close>

definition OUTPUT :: path where
  "OUTPUT = ''output''"

definition mk_task :: "string \<Rightarrow> string \<Rightarrow> path option \<Rightarrow> task" where
  "mk_task n c outfile = \<lparr>task_name = n, task_cmd = c, task_outfile = outfile\<rparr>"

definition sub_tasks :: "task list" where
  "sub_tasks =
     [mk_task ''subfinder'' ''subfinder -dL scope.txt -silent'' (Some (OUTPUT @ ''/sub1.txt'')),
      mk_task ''assetfinder'' ''assetfinder --subs-only $(cat scope.txt)''
        (Some (OUTPUT @ ''/sub2.txt'')),
      mk_task ''amass'' ''amass enum -passive -df scope.txt'' (Some (OUTPUT @ ''/sub3.txt''))]"

definition url_tasks :: "task list" where
  "url_tasks =
     [mk_task ''gau'' (''gau < '' @ OUTPUT @ ''/resolved.txt'') (Some (OUTPUT @ ''/urls1.txt'')),
      mk_task ''waybackurls'' (''waybackurls < '' @ OUTPUT @ ''/resolved.txt'')
        (Some (OUTPUT @ ''/urls2.txt'')),
      mk_task ''katana'' (''katana -list '' @ OUTPUT @ ''/resolved.txt -silent'')
        (Some (OUTPUT @ ''/urls3.txt''))]"

definition js_tasks :: "task list" where
  "js_tasks =
     [mk_task ''subjs'' (''subjs -i '' @ OUTPUT @ ''/alive.txt'') (Some (OUTPUT @ ''/js.txt''))]"

definition param_tasks :: "task list" where
  "param_tasks =
     [mk_task ''paramspider''
        (''python3 ParamSpider/paramspider.py -l '' @ OUTPUT @ ''/resolved.txt'')
        (Some (OUTPUT @ ''/params1.txt'')),
      mk_task ''arjun'' (''arjun -i '' @ OUTPUT @ ''/alive.txt -oT '' @ OUTPUT @ ''/params2.txt'')
        None]"

definition clone_paramspider :: "env \<Rightarrow> unit io" where
  "clone_paramspider E w =
     (if \<not> exists_path (disk w) ''ParamSpider''
      then andThen (run E ''git clone https://github.com/devanshbatham/ParamSpider.git'' None)
             (\<lambda>_. ret ()) w
      else ret () w)"

definition recon :: "env \<Rightarrow> unit io" where
  "recon E =
     andThen (makedirs OUTPUT) (\<lambda>_.
     andThen (emit (Banner ''[1/10] Subdomain Discovery'')) (\<lambda>_.
     andThen (run_parallel E sub_tasks 4) (\<lambda>_.
     andThen (run E (''cat '' @ OUTPUT @ ''/sub*.txt | sort -u'')
                (Some (OUTPUT @ ''/subdomains.txt''))) (\<lambda>_.
     andThen (emit (Banner ''[2/10] DNS Resolution'')) (\<lambda>_.
     andThen (run E (''dnsx -l '' @ OUTPUT @ ''/subdomains.txt -silent'')
                (Some (OUTPUT @ ''/resolved.txt''))) (\<lambda>_.
     andThen (emit (Banner ''[3/10] HTTP Probing'')) (\<lambda>_.
     andThen (run E (''httpx -l '' @ OUTPUT @ ''/resolved.txt -status-code -title -tech-detect'')
                (Some (OUTPUT @ ''/alive.txt''))) (\<lambda>_.
     andThen (emit (Banner ''[4/10] Port Scanning'')) (\<lambda>_.
     andThen (run E (''naabu -l '' @ OUTPUT @ ''/resolved.txt -top-ports 1000 -silent'')
                (Some (OUTPUT @ ''/ports.txt''))) (\<lambda>_.
     andThen (emit (Banner ''[5/10] Technology Fingerprinting'')) (\<lambda>_.
     andThen (run E (''whatweb -i '' @ OUTPUT @ ''/alive.txt'')
                (Some (OUTPUT @ ''/tech.txt''))) (\<lambda>_.
     andThen (emit (Banner ''[6/10] URL Discovery'')) (\<lambda>_.
     andThen (run_parallel E url_tasks 4) (\<lambda>_.
     andThen (run E (''cat '' @ OUTPUT @ ''/urls*.txt | sort -u'')
                (Some (OUTPUT @ ''/urls.txt''))) (\<lambda>_.
     andThen (emit (Banner ''[7/10] JavaScript Recon'')) (\<lambda>_.
     andThen (run_parallel E js_tasks 4) (\<lambda>_.
     andThen (emit (Banner ''[8/10] Parameter Mining'')) (\<lambda>_.
     andThen (clone_paramspider E) (\<lambda>_.
     andThen (run_parallel E param_tasks 4) (\<lambda>_.
     andThen (run E (''cat '' @ OUTPUT @ ''/params*.txt | sort -u'')
                (Some (OUTPUT @ ''/params.txt''))) (\<lambda>_.
     andThen (emit (Banner ''[9/10] Vulnerability Scanning (Nuclei)'')) (\<lambda>_.
     andThen (run E (''nuclei -l '' @ OUTPUT @ ''/alive.txt -severity low,medium,high -silent'')
                (Some (OUTPUT @ ''/nuclei.txt''))) (\<lambda>_.
     ret ())))))))))))))))))))))))"

section \<open>Report generation\<close>

definition header :: "string \<Rightarrow> string" where
  "header file = ''\<newline>===== '' @ file @ '' =====\<newline>''"

definition report_txt :: path where
  "report_txt = OUTPUT @ ''/report.txt''"

definition report_html :: path where
  "report_html = OUTPUT @ ''/report.html''"

text \<open>
  The loop of the first \<open>with\<close> block. \<open>written\<close> is everything passed to \<open>f.write\<close> so
  far. The report file is open and buffered while the loop reads the listed files, so a
  read of the report file itself sees the part of \<open>written\<close> that has been flushed.
  The result is the exception that ended the loop, if any, and the text written.
\<close>

fun write_sections :: "env \<Rightarrow> sys \<Rightarrow> string list \<Rightarrow> string \<Rightarrow> error option \<times> string" where
  "write_sections E s [] written = (None, written)"
| "write_sections E s (file # rest) written =
     (let written1 = written @ header file;
          on_disk = s\<lparr>files := AList.update report_txt
                                  (take (flushed E written1) written1) (files s)\<rparr>
      in case read_text on_disk (OUTPUT @ ''/'' @ file) of
           Inl e \<Rightarrow> (Some e, written1)
         | Inr text \<Rightarrow> write_sections E s rest (written1 @ text))"

text \<open>
  \<open>with open(f"{OUTPUT}/report.txt", "w") as f\<close>: opening creates or empties the file
  before the directory is listed; leaving the block, normally or by an exception, closes
  the file with everything written.
\<close>

definition text_report :: "env \<Rightarrow> unit io" where
  "text_report E w =
     (case write_text (disk w) report_txt [] of
        Inl e \<Rightarrow> (Inl e, w)
      | Inr s \<Rightarrow>
          (case listdir s OUTPUT of
             Inl e \<Rightarrow> (Inl e, w\<lparr>disk := s\<rparr>)
           | Inr names \<Rightarrow>
               (case write_sections E s (sort names) [] of
                  (exc, written) \<Rightarrow>
                    (case exc of Some e \<Rightarrow> Inl e | None \<Rightarrow> Inr (),
                     w\<lparr>disk := s\<lparr>files := AList.update report_txt written (files s)\<rparr>,
                        trace := trace w @ [Wrote report_txt]\<rparr>))))"

text \<open>
  The Jinja template, expanded: the text before the \<open>for\<close> tag, the loop body once per
  file, the text after the \<open>endfor\<close> tag. The template is built with the defaults, so
  nothing is escaped and no whitespace is trimmed.
\<close>

definition html_head :: string where
  "html_head =
     ''\<newline>    <html>\<newline>    <head>\<newline>        <title>ReconX Report</title>\<newline>'' @
     ''        <style>\<newline>'' @
     ''            body { font-family: monospace; background: #0f172a; color: #e5e7eb; }\<newline>'' @
     ''            h1, h2 { color: #38bdf8; }\<newline>'' @
     ''            pre { background: #020617; padding: 10px; overflow-x: auto; }\<newline>'' @
     ''        </style>\<newline>    </head>\<newline>    <body>\<newline>'' @
     ''    <h1>ReconX Report</h1>\<newline>    ''"

definition html_section :: "(string \<times> string) list \<Rightarrow> string \<Rightarrow> string" where
  "html_section content file =
     ''\<newline>      <h2>'' @ file @ ''</h2>\<newline>      <pre>'' @
     (case map_of content file of None \<Rightarrow> [] | Some text \<Rightarrow> text) @
     ''</pre>\<newline>    ''"

definition html_tail :: string where
  "html_tail = ''\<newline>    </body>\<newline>    </html>\<newline>    ''"

definition render :: "string list \<Rightarrow> (string \<times> string) list \<Rightarrow> string" where
  "render fs content = html_head @ concat (map (html_section content) fs) @ html_tail"

text \<open>The dict comprehension \<open>{f: open(f"{OUTPUT}/{f}").read() for f in files}\<close>.\<close>

fun read_all :: "sys \<Rightarrow> string list \<Rightarrow> error + (string \<times> string) list" where
  "read_all s [] = Inr []"
| "read_all s (f # fs) =
     (case read_text s (OUTPUT @ ''/'' @ f) of
        Inl e \<Rightarrow> Inl e
      | Inr text \<Rightarrow> (case read_all s fs of Inl e \<Rightarrow> Inl e | Inr rest \<Rightarrow> Inr ((f, text) # rest)))"

definition html_report :: "unit io" where
  "html_report =
     andThen (\<lambda>w. (listdir (disk w) OUTPUT, w)) (\<lambda>names.
     andThen (\<lambda>w. (read_all (disk w) (sort names), w)) (\<lambda>content.
     write_file report_html (render (sort names) content)))"

definition report :: "env \<Rightarrow> unit io" where
  "report E =
     andThen (emit (Banner ''[10/10] Report Generation'')) (\<lambda>_.
     andThen (text_report E) (\<lambda>_.
     html_report))"

section \<open>Entry point\<close>

text \<open>The closing message, which also gives the elapsed time, is recorded as a banner.\<close>

definition main :: "env \<Rightarrow> unit io" where
  "main E =
     andThen (check_tools E) (\<lambda>_.
     andThen (recon E) (\<lambda>_.
     andThen (report E) (\<lambda>_.
     emit (Banner ''Recon Complete''))))"

section \<open>Concrete environments\<close>


definition echo_shell :: "string \<Rightarrow> sys \<Rightarrow> proc" where
  "echo_shell c s = \<lparr>returncode = 0, stdout = ''1\<newline>'', stderr = [], after = s\<rparr>"


definition env_of :: "(string \<Rightarrow> sys \<Rightarrow> proc) \<Rightarrow> env" where
  "env_of sh = \<lparr>shell = sh, pick = (\<lambda>_ _. 0), flushed = (\<lambda>_. 0),
                yaml = (\<lambda>_. Inl YAMLError), go_bin = ''/root/go/bin''\<rparr>"


definition store_ab :: sys where
  "store_ab = \<lparr>dirs = [''output''],
               files = [(''output/a.txt'', ''x''), (''output/b.txt'', ''y'')], clock = 0\<rparr>"

definition boot :: "sys \<Rightarrow> world" where
  "boot s = \<lparr>disk = s, trace = []\<rparr>"





definition scenario_text :: string where
  "scenario_text = ''\<newline>===== a.txt =====\<newline>x\<newline>===== b.txt =====\<newline>y''"

text \<open>
  The bootstrap contract in the spec's words: a list of entries (name, presence check,
  install command), consulted in order; for each entry the check runs, and the install
  command runs exactly if the check failed. \<open>bootstrap_spec\<close> is the trace this
  prescribes, given for each entry the exit status of its check and, where it ran, of its
  install command.
\<close>

fun bootstrap_spec :: "(string \<times> string \<times> string) list \<Rightarrow> (int \<times> int) list \<Rightarrow> event list" where
  "bootstrap_spec ((n, chk, inst) # entries) ((rc, rc') # outcomes) =
     Called chk rc # (if rc \<noteq> 0 then [Installing n, Called inst rc'] else [Found n]) @
     bootstrap_spec entries outcomes"
| "bootstrap_spec _ _ = []"

text \<open>The entries that \<open>check_tools\<close> goes through: the system dependencies, then the tools.\<close>

definition bootstrap_list :: "env \<Rightarrow> config \<Rightarrow> (string \<times> string \<times> string) list" where
  "bootstrap_list E data =
     map (\<lambda>dep. (dep_name dep, dep_check dep, dep_install dep))
       (case system_dependencies data of None \<Rightarrow> [] | Some deps \<Rightarrow> deps) @
     map (\<lambda>t. (tool_name t, check_cmd E t @ '' >/dev/null 2>&1'', tool_install t)) (tools data)"

definition demo_config :: config where
  "demo_config =
     \<lparr>system_dependencies =
        Some [\<lparr>dep_name = ''git'', dep_check = ''command -v git'',
               dep_install = ''apt install -y git''\<rparr>],
      tools =
        [\<lparr>tool_name = ''subfinder'', tool_check = None,
           tool_install = ''go install subfinder''\<rparr>,
         \<lparr>tool_name = ''dnsx'', tool_check = Some ''command -v dnsx'',
           tool_install = ''go install dnsx''\<rparr>]\<rparr>"

text \<open>A machine on which only \<open>dnsx\<close> is present and nothing can be installed.\<close>

definition offline_shell :: "string \<Rightarrow> sys \<Rightarrow> proc" where
  "offline_shell c s =
     \<lparr>returncode = (if c = ''command -v dnsx >/dev/null 2>&1'' then 0 else 1),
      stdout = [], stderr = [], after = s\<rparr>"

definition demo_env :: env where
  "demo_env = (env_of offline_shell)\<lparr>yaml := (\<lambda>src. Inr demo_config)\<rparr>"

definition demo_sys :: sys where
  "demo_sys = \<lparr>dirs = [], files = [(''tools.yaml'', ''tools: ...'')], clock = 0\<rparr>"

text \<open>
  The orchestrator in the spec's words: an ordered list of statements, run strictly in
  order, each of them a banner, a pool of tasks, a single captured command, the creation
  of the output directory, or the conditional clone.
\<close>

datatype step =
    Mkdir path
  | Say string
  | Pool "task list"
  | Single string "path option"
  | Clone














section \<open>The command runner\<close>


lemma run_outfile:
  "truthy outfile \<Longrightarrow>
   run E c outfile w =
     (let r = shell E c (disk w);
          w1 = w\<lparr>disk := after r, trace := trace w @ [Called c (returncode r)]\<rparr>
      in case write_text (after r) (the outfile) (stdout r) of
           Inl e \<Rightarrow> (Inl e, w1)
         | Inr s \<Rightarrow> (Inr (stdout r), w1\<lparr>disk := s, trace := trace w1 @ [Wrote (the outfile)]\<rparr>))"
  by (simp add: run_def andThen_def subprocess_run_def ret_def Let_def write_file_def
      split: sum.splits)



text \<open>
  C5. With a capture file \<open>p\<close>, whenever \<open>run\<close> returns, what it returns is the captured
  standard output and the file \<open>p\<close> then holds exactly that text, whatever \<open>p\<close> held
  before; and \<open>run\<close> does return whenever \<open>p\<close> can be opened for writing once the
  command has finished.
\<close>

theorem run_capture_overwrites:
  "p \<noteq> [] \<Longrightarrow>
   (\<forall>out w'. run E c (Some p) w = (Inr out, w') \<longrightarrow>
      out = stdout (shell E c (disk w)) \<and> read_text (disk w') p = Inr out) \<and>
   ((\<exists>s'. write_text (after (shell E c (disk w))) p [] = Inr s') \<longrightarrow>
      (\<exists>w'. run E c (Some p) w = (Inr (stdout (shell E c (disk w))), w')))"
  by (auto simp: run_outfile truthy_def Let_def write_text_def read_text_def isdir_def
        update_conv' split: sum.splits if_splits)

theorem run_capture_overwrites_witness:
  "''output/a.txt'' \<noteq> [] \<and>
   read_text store_ab ''output/a.txt'' = Inr ''x'' \<and>
   (\<exists>w'. run (env_of echo_shell) ''echo 1'' (Some ''output/a.txt'') (boot store_ab) =
            (Inr ''1\<newline>'', w') \<and>
          read_text (disk w') ''output/a.txt'' = Inr ''1\<newline>'')"
proof -
  have ne: "''output/a.txt'' \<noteq> []" by simp
  have can: "\<exists>s'. write_text (after (shell (env_of echo_shell) ''echo 1'' (disk (boot store_ab))))
                    ''output/a.txt'' [] = Inr s'"
    by (simp add: write_text_def env_of_def echo_shell_def boot_def store_ab_def isdir_def
          dirname_def)
  have out: "stdout (shell (env_of echo_shell) ''echo 1'' (disk (boot store_ab))) = ''1\<newline>''"
    by (simp add: env_of_def echo_shell_def)
  have before: "read_text store_ab ''output/a.txt'' = Inr ''x''"
    by (simp add: read_text_def store_ab_def isdir_def)
  from run_capture_overwrites [OF ne, of "env_of echo_shell" "''echo 1''" "boot store_ab"] can
  obtain w' where r: "run (env_of echo_shell) ''echo 1'' (Some ''output/a.txt'') (boot store_ab) =
      (Inr (stdout (shell (env_of echo_shell) ''echo 1'' (disk (boot store_ab)))), w')"
    by blast
  with run_capture_overwrites [OF ne, of "env_of echo_shell" "''echo 1''" "boot store_ab"]
  have "read_text (disk w') ''output/a.txt'' =
        Inr (stdout (shell (env_of echo_shell) ''echo 1'' (disk (boot store_ab))))"
    by blast
  with r out before ne show ?thesis by auto
qed

section \<open>The task pool\<close>






declare collect.simps [simp del] shutdown.simps [simp del]























section \<open>The report\<close>



lemma entry_of_join:
  "n \<noteq> [] \<Longrightarrow> CHR ''/'' \<notin> set n \<Longrightarrow> entry_of d (d @ ''/'' @ n) = Some n"
  by (simp add: entry_of_def)







lemma read_all_keys: "read_all s fs = Inr content \<Longrightarrow> map fst content = fs"
  by (induction fs arbitrary: content) (auto split: sum.splits)








lemmas report_eval =
  report_def andThen_def emit_def text_report_def html_report_def write_file_def
  write_text_def read_text_def listdir_def isdir_def isfile_def dirname_def entry_of_def
  List.map_filter_def OUTPUT_def report_txt_def report_html_def header_def Let_def

text \<open>The first run over the store of the scenario, for every environment.\<close>

lemma report_scenario:
  "report E (boot store_ab) =
     (Inr (),
      \<lparr>disk = \<lparr>dirs = [''output''],
          files =
          [(''output/a.txt'', ''x''), (''output/b.txt'', ''y''),
           (''output/report.txt'',
            scenario_text @ header ''report.txt'' @
              take (flushed E (scenario_text @ header ''report.txt''))
                   (scenario_text @ header ''report.txt'')),
           (''output/report.html'',
            render [''a.txt'', ''b.txt'', ''report.txt'']
              [(''a.txt'', ''x''), (''b.txt'', ''y''),
               (''report.txt'', scenario_text @ header ''report.txt'' @
                  take (flushed E (scenario_text @ header ''report.txt''))
                       (scenario_text @ header ''report.txt''))])],
          clock = 0\<rparr>,
       trace = [Banner ''[10/10] Report Generation'', Wrote ''output/report.txt'',
                Wrote ''output/report.html'']\<rparr>)"
  by (simp add: report_eval boot_def store_ab_def scenario_text_def del: take_append)

text \<open>A run over a store that already holds both reports, whatever they contain.\<close>

lemma report_again:
  "report E
     \<lparr>disk = \<lparr>dirs = [''output''],
         files = [(''output/a.txt'', ''x''), (''output/b.txt'', ''y''),
                  (''output/report.txt'', T), (''output/report.html'', H)],
         clock = 0\<rparr>,
      trace = tr\<rparr> =
     (Inr (),
      \<lparr>disk = \<lparr>dirs = [''output''],
          files =
          [(''output/a.txt'', ''x''), (''output/b.txt'', ''y''),
           (''output/report.txt'',
            scenario_text @ header ''report.html'' @ H @ header ''report.txt'' @
              take (flushed E (scenario_text @ header ''report.html'' @ H @ header ''report.txt''))
                   (scenario_text @ header ''report.html'' @ H @ header ''report.txt'')),
           (''output/report.html'',
            render [''a.txt'', ''b.txt'', ''report.html'', ''report.txt'']
              [(''a.txt'', ''x''), (''b.txt'', ''y''), (''report.html'', H),
               (''report.txt'',
                scenario_text @ header ''report.html'' @ H @ header ''report.txt'' @
                take (flushed E (scenario_text @ header ''report.html'' @ H @ header ''report.txt''))
                     (scenario_text @ header ''report.html'' @ H @ header ''report.txt''))])],
          clock = 0\<rparr>,
       trace = tr @ [Banner ''[10/10] Report Generation'', Wrote ''output/report.txt'',
                Wrote ''output/report.html'']\<rparr>)"
  by (simp add: report_eval scenario_text_def del: take_append)


text \<open>
  C2. On the store that holds exactly \<open>a.txt\<close> ("x") and \<open>b.txt\<close> ("y"), the report
  succeeds, but the text report is not the text of the two sections: \<open>report.txt\<close> is
  created in the output directory before the directory is listed, so a third section,
  headed \<open>report.txt\<close>, follows the two, holding whatever part of the report had been
  flushed when the file was read back. This holds for every environment.
\<close>

theorem report_scenario_has_extra_section:
  "fst (report E (boot store_ab)) = Inr () \<and>
   read_text (disk (snd (report E (boot store_ab)))) report_txt =
     Inr (scenario_text @ ''\<newline>===== report.txt =====\<newline>'' @
          take (flushed E (scenario_text @ ''\<newline>===== report.txt =====\<newline>''))
               (scenario_text @ ''\<newline>===== report.txt =====\<newline>'')) \<and>
   read_text (disk (snd (report E (boot store_ab)))) report_txt \<noteq> Inr scenario_text"
  unfolding report_scenario
  by (simp add: read_text_def isdir_def report_txt_def OUTPUT_def header_def del: take_append)

lemma render_differs:
  "render [''a.txt'', ''b.txt'', ''report.html'', ''report.txt'']
     [(''a.txt'', ''x''), (''b.txt'', ''y''), (''report.html'', H), (''report.txt'', T')] \<noteq>
   render [''a.txt'', ''b.txt'', ''report.txt'']
     [(''a.txt'', ''x''), (''b.txt'', ''y''), (''report.txt'', T)]"
  by (simp add: render_def html_section_def)

text \<open>
  C3. A second run over the store left by the first one (the store of C2, otherwise
  unchanged) succeeds as well, and neither report is the same as before: the second
  listing also holds \<open>report.html\<close>, so both reports gain a section. (That apart, the
  report writes nothing but its two files: \<open>report_readonly\<close> below.)
\<close>

theorem report_not_idempotent:
  "fst (report E (boot store_ab)) = Inr () \<and>
   fst (report E (snd (report E (boot store_ab)))) = Inr () \<and>
   read_text (disk (snd (report E (snd (report E (boot store_ab)))))) report_txt \<noteq>
     read_text (disk (snd (report E (boot store_ab)))) report_txt \<and>
   read_text (disk (snd (report E (snd (report E (boot store_ab)))))) report_html \<noteq>
     read_text (disk (snd (report E (boot store_ab)))) report_html"
  unfolding report_scenario snd_conv fst_conv report_again
  by (simp add: read_text_def isdir_def report_txt_def report_html_def OUTPUT_def header_def
        render_differs del: take_append)

lemma report_readonly:
  assumes "report E w = (r, w')"
  shows "dirs (disk w') = dirs (disk w) \<and>
         (\<forall>p. p \<noteq> report_txt \<and> p \<noteq> report_html \<longrightarrow>
              map_of (files (disk w')) p = map_of (files (disk w)) p)"
  using assms
  by (auto simp: report_def andThen_def emit_def text_report_def html_report_def
        write_file_def write_text_def update_conv'
        split: sum.splits prod.splits option.splits if_splits)


lemma write_text_ok_iff:
  "(\<exists>s'. write_text s p body = Inr s') \<longleftrightarrow>
   \<not> isdir s p \<and> (dirname p = [] \<or> isdir s (dirname p))"
  by (auto simp: write_text_def)













section \<open>The dependency bootstrap\<close>

lemma subprocess_call_eq:
  "subprocess_call E c w =
     (Inr (returncode (shell E c (disk w))),
      w\<lparr>disk := after (shell E c (disk w)),
        trace := trace w @ [Called c (returncode (shell E c (disk w)))]\<rparr>)"
  by (simp add: subprocess_call_def subprocess_run_def andThen_def ret_def Let_def)

lemma ensure_deps_trace:
  "\<exists>w' outcomes. ensure_deps E deps w = (Inr (), w') \<and> length outcomes = length deps \<and>
     trace w' = trace w @
       bootstrap_spec (map (\<lambda>dep. (dep_name dep, dep_check dep, dep_install dep)) deps) outcomes"
proof (induction deps arbitrary: w)
  case Nil
  show ?case by (simp add: ret_def)
next
  case (Cons dep deps)
  define rc where "rc = returncode (shell E (dep_check dep) (disk w))"
  define w1 where "w1 = w\<lparr>disk := after (shell E (dep_check dep) (disk w)),
        trace := trace w @ [Called (dep_check dep) rc]\<rparr>"
  define rc' where "rc' = returncode (shell E (dep_install dep) (disk w1))"
  define w2 where "w2 = (if rc \<noteq> 0
     then w1\<lparr>disk := after (shell E (dep_install dep) (disk w1)),
             trace := trace w1 @ [Installing (dep_name dep), Called (dep_install dep) rc']\<rparr>
     else w1\<lparr>trace := trace w1 @ [Found (dep_name dep)]\<rparr>)"
  have step: "ensure_deps E (dep # deps) w = ensure_deps E deps w2"
    by (simp add: subprocess_call_eq andThen_def emit_def ret_def rc_def w1_def rc'_def w2_def)
  from Cons.IH [of w2] obtain w' outcomes where
    ih: "ensure_deps E deps w2 = (Inr (), w')" "length outcomes = length deps"
      "trace w' = trace w2 @
         bootstrap_spec (map (\<lambda>dep. (dep_name dep, dep_check dep, dep_install dep)) deps) outcomes"
    by blast
  have tr: "trace w' = trace w @
      bootstrap_spec (map (\<lambda>dep. (dep_name dep, dep_check dep, dep_install dep)) (dep # deps))
        ((rc, rc') # outcomes)"
    using ih(3) by (simp add: w2_def w1_def)
  have len: "length ((rc, rc') # outcomes) = length (dep # deps)" using ih(2) by simp
  have run: "ensure_deps E (dep # deps) w = (Inr (), w')" using step ih(1) by simp
  from run len tr show ?case by (intro exI conjI)
qed

lemma ensure_tools_trace:
  "\<exists>w' outcomes. ensure_tools E ts w = (Inr (), w') \<and> length outcomes = length ts \<and>
     trace w' = trace w @
       bootstrap_spec
         (map (\<lambda>t. (tool_name t, check_cmd E t @ '' >/dev/null 2>&1'', tool_install t)) ts)
         outcomes"
proof (induction ts arbitrary: w)
  case Nil
  show ?case by (simp add: ret_def)
next
  case (Cons t ts)
  let ?chk = "check_cmd E t @ '' >/dev/null 2>&1''"
  define rc where "rc = returncode (shell E ?chk (disk w))"
  define w1 where "w1 = w\<lparr>disk := after (shell E ?chk (disk w)),
        trace := trace w @ [Called ?chk rc]\<rparr>"
  define rc' where "rc' = returncode (shell E (tool_install t) (disk w1))"
  define w2 where "w2 = (if rc \<noteq> 0
     then w1\<lparr>disk := after (shell E (tool_install t) (disk w1)),
             trace := trace w1 @ [Installing (tool_name t), Called (tool_install t) rc']\<rparr>
     else w1\<lparr>trace := trace w1 @ [Found (tool_name t)]\<rparr>)"
  have step: "ensure_tools E (t # ts) w = ensure_tools E ts w2"
    by (simp add: subprocess_call_eq andThen_def emit_def ret_def rc_def w1_def rc'_def w2_def)
  from Cons.IH [of w2] obtain w' outcomes where
    ih: "ensure_tools E ts w2 = (Inr (), w')" "length outcomes = length ts"
      "trace w' = trace w2 @
         bootstrap_spec
           (map (\<lambda>t. (tool_name t, check_cmd E t @ '' >/dev/null 2>&1'', tool_install t)) ts)
           outcomes"
    by blast
  have tr: "trace w' = trace w @
      bootstrap_spec
        (map (\<lambda>t. (tool_name t, check_cmd E t @ '' >/dev/null 2>&1'', tool_install t)) (t # ts))
        ((rc, rc') # outcomes)"
    using ih(3) by (simp add: w2_def w1_def)
  have len: "length ((rc, rc') # outcomes) = length (t # ts)" using ih(2) by simp
  have run: "ensure_tools E (t # ts) w = (Inr (), w')" using step ih(1) by simp
  from run len tr show ?case by (intro exI conjI)
qed

lemma bootstrap_spec_append:
  "length os1 = length es1 \<Longrightarrow>
   bootstrap_spec (es1 @ es2) (os1 @ os2) = bootstrap_spec es1 os1 @ bootstrap_spec es2 os2"
proof (induction os1 es1 rule: list_induct2)
  case Nil
  show ?case by simp
next
  case (Cons outcome os1 entry es1)
  obtain rc rc' where o: "outcome = (rc, rc')" by (cases outcome)
  obtain n chk inst where e: "entry = (n, chk, inst)" by (cases entry)
  show ?case using Cons.IH by (simp add: o e)
qed

text \<open>
  C8. Once \<open>tools.yaml\<close> has been read and parsed, \<open>check_tools\<close> never raises,
  whatever the exit statuses: its trace is the one the bootstrap contract prescribes for
  its entries, one block per entry in order, the install command called exactly in the
  blocks whose check failed, and the next entry's check following whatever the install
  command returned.
\<close>

theorem check_tools_best_effort:
  assumes "read_text (disk w) ''tools.yaml'' = Inr src" and "yaml E src = Inr data"
  shows "\<exists>w' outcomes. check_tools E w = (Inr (), w') \<and>
           length outcomes = length (bootstrap_list E data) \<and>
           trace w' = trace w @ bootstrap_spec (bootstrap_list E data) outcomes"
proof -
  let ?deps = "case system_dependencies data of None \<Rightarrow> [] | Some deps \<Rightarrow> deps"
  from ensure_deps_trace [of E ?deps w] obtain w1 o1 where
    d: "ensure_deps E ?deps w = (Inr (), w1)" "length o1 = length ?deps"
       "trace w1 = trace w @
          bootstrap_spec (map (\<lambda>dep. (dep_name dep, dep_check dep, dep_install dep)) ?deps) o1"
    by blast
  from ensure_tools_trace [of E "tools data" w1] obtain w2 o2 where
    t: "ensure_tools E (tools data) w1 = (Inr (), w2)" "length o2 = length (tools data)"
       "trace w2 = trace w1 @
          bootstrap_spec
            (map (\<lambda>t. (tool_name t, check_cmd E t @ '' >/dev/null 2>&1'', tool_install t))
               (tools data)) o2"
    by blast
  have run: "check_tools E w = (Inr (), w2)"
    using assms d(1) t(1) by (simp add: check_tools_def andThen_def read_file_def)
  have "trace w2 = trace w @ bootstrap_spec (bootstrap_list E data) (o1 @ o2)"
    using d(2,3) t(3) by (simp add: bootstrap_list_def bootstrap_spec_append)
  moreover have "length (o1 @ o2) = length (bootstrap_list E data)"
    using d(2) t(2) by (simp add: bootstrap_list_def)
  ultimately show ?thesis using run by (intro exI conjI)
qed


theorem check_tools_best_effort_witness:
  "read_text (disk (boot demo_sys)) ''tools.yaml'' = Inr ''tools: ...'' \<and>
   yaml demo_env ''tools: ...'' = Inr demo_config \<and>
   fst (check_tools demo_env (boot demo_sys)) = Inr () \<and>
   trace (snd (check_tools demo_env (boot demo_sys))) =
     [Called ''command -v git'' 1, Installing ''git'', Called ''apt install -y git'' 1,
      Called ''command -v subfinder || test -x /root/go/bin/subfinder >/dev/null 2>&1'' 1,
      Installing ''subfinder'', Called ''go install subfinder'' 1,
      Called ''command -v dnsx >/dev/null 2>&1'' 0, Found ''dnsx'']"
proof -
  have f: "read_text (disk (boot demo_sys)) ''tools.yaml'' = Inr ''tools: ...''"
    by (simp add: read_text_def boot_def demo_sys_def isdir_def)
  have y: "yaml demo_env ''tools: ...'' = Inr demo_config"
    by (simp add: demo_env_def)
  from check_tools_best_effort [OF f y] obtain w' where
    r: "check_tools demo_env (boot demo_sys) = (Inr (), w')" by blast
  have sh: "shell demo_env = offline_shell" "go_bin demo_env = ''/root/go/bin''"
    by (simp_all add: demo_env_def env_of_def)
  have "trace (snd (check_tools demo_env (boot demo_sys))) =
     [Called ''command -v git'' 1, Installing ''git'', Called ''apt install -y git'' 1,
      Called ''command -v subfinder || test -x /root/go/bin/subfinder >/dev/null 2>&1'' 1,
      Installing ''subfinder'', Called ''go install subfinder'' 1,
      Called ''command -v dnsx >/dev/null 2>&1'' 0, Found ''dnsx'']"
    by (simp add: check_tools_def andThen_def read_file_def f y demo_config_def
          subprocess_call_eq emit_def ret_def check_cmd_def sh offline_shell_def)
       (simp add: boot_def)
  with f y r show ?thesis by simp
qed

section \<open>The order of the stages\<close>


















section \<open>A failed tool does not stop the pipeline\<close>




















end
